theory Spec2Isabelle
  imports Complex_Main "HOL-Library.Word" "HOL-Library.Multiset"
begin

unbundle bit_operations_syntax

section \<open>The marketplace client: data model\<close>

text \<open>
  The types of \<^verbatim>\<open>src/types\<close>. Each TypeScript interface is a record with the fields
  of the source, in the source's order. A field name that several interfaces share
  (\<^verbatim>\<open>flags\<close>, \<^verbatim>\<open>displayName\<close>, \<^verbatim>\<open>lastUpdated\<close>) is written qualified by its record.
  A JavaScript \<^verbatim>\<open>number\<close> that the client only carries along is a \<open>real\<close>; a
  \<^verbatim>\<open>Record<string, number>\<close> is a map.
\<close>

record PublisherInfo =
  publisherId :: string
  publisherName :: string
  displayName :: string
  flags :: string
  domain :: string
  isDomainVerified :: bool

record ExtensionFile =
  assetType :: string
  source :: string

record ExtensionVersion =
  version :: string
  flags :: string
  lastUpdated :: string
  files :: "ExtensionFile list"
  assetUri :: string
  fallbackAssetUri :: string

record ExtensionInfo =
  publisher :: PublisherInfo
  extensionId :: string
  extensionName :: string
  displayName :: string
  flags :: string
  lastUpdated :: string
  publishedDate :: string
  releaseDate :: string
  presentInConflictList :: string
  shortDescription :: string
  versions :: "ExtensionVersion list"
  categories :: "string list"
  tags :: "string list"
  statistics :: "string \<rightharpoonup> real"
  deploymentType :: real

record SearchResults =
  extensions :: "ExtensionInfo list"

text \<open>
  \<^verbatim>\<open>QueryFlag\<close> is a closed union of eighteen number literals; \<open>number\<close> reads a flag
  as the number it is (the cast \<^verbatim>\<open>flags as number[]\<close> of \<^verbatim>\<open>fetchExtensionData\<close>).
\<close>

datatype QueryFlag =
    Flag_0 | Flag_1 | Flag_2 | Flag_4 | Flag_8 | Flag_16 | Flag_32 | Flag_64 | Flag_128
  | Flag_256 | Flag_512 | Flag_1024 | Flag_2048 | Flag_4096 | Flag_8192 | Flag_16384
  | Flag_16863 | Flag_32768

fun number :: "QueryFlag \<Rightarrow> int" where
  "number Flag_0 = 0"
| "number Flag_1 = 1"
| "number Flag_2 = 2"
| "number Flag_4 = 4"
| "number Flag_8 = 8"
| "number Flag_16 = 16"
| "number Flag_32 = 32"
| "number Flag_64 = 64"
| "number Flag_128 = 128"
| "number Flag_256 = 256"
| "number Flag_512 = 512"
| "number Flag_1024 = 1024"
| "number Flag_2048 = 2048"
| "number Flag_4096 = 4096"
| "number Flag_8192 = 8192"
| "number Flag_16384 = 16384"
| "number Flag_16863 = 16863"
| "number Flag_32768 = 32768"

section \<open>Errors and promises\<close>

text \<open>
  The classes of \<^verbatim>\<open>src/errors\<close> extend \<^verbatim>\<open>VSCodeExtensionError\<close>; each constructor of
  the source builds the message from its arguments and sets \<^verbatim>\<open>name\<close> to the class name.
  An error value here is the class (the constructor of \<open>error\<close>) with its message. The
  \<^verbatim>\<open>timestamp\<close> is the wall clock and is left out; \<^verbatim>\<open>errorCode\<close> is never given by the
  service. Failures that are no \<^verbatim>\<open>VSCodeExtensionError\<close>: the \<^verbatim>\<open>TypeError\<close> JavaScript
  raises on a property read of \<^verbatim>\<open>undefined\<close>, a rejected axios request, and an
  \<^verbatim>\<open>error\<close> event of the write stream.
\<close>

datatype error =
    ExtensionNotFoundError string
  | VersionNotFoundError string
  | VsixFileNotFoundError string
  | TypeError
  | AxiosError
  | WriteStreamError

definition new_ExtensionNotFoundError :: "string \<Rightarrow> error" where
  \<open>new_ExtensionNotFoundError extensionId' =
     ExtensionNotFoundError (''Extension "'' @ extensionId' @ ''" not found.'')\<close>

definition new_VersionNotFoundError :: "string \<Rightarrow> string \<Rightarrow> error" where
  \<open>new_VersionNotFoundError extensionId' version' =
     VersionNotFoundError
       (''Version "'' @ version' @ ''" for extension "'' @ extensionId' @ ''" not found.'')\<close>

definition new_VsixFileNotFoundError :: "string \<Rightarrow> error" where
  \<open>new_VsixFileNotFoundError extensionId' =
     VsixFileNotFoundError (''VSIX file for extension "'' @ extensionId' @ ''" not found.'')\<close>

text \<open>\<^verbatim>\<open>e instanceof VSCodeExtensionError\<close>: the typed errors of the domain.\<close>

fun instanceof_VSCodeExtensionError :: "error \<Rightarrow> bool" where
  "instanceof_VSCodeExtensionError (ExtensionNotFoundError m) = True"
| "instanceof_VSCodeExtensionError (VersionNotFoundError m) = True"
| "instanceof_VSCodeExtensionError (VsixFileNotFoundError m) = True"
| "instanceof_VSCodeExtensionError e = False"

text \<open>
  The outcome of an \<^verbatim>\<open>async\<close> call: the promise resolves with a value, rejects with an
  error, or never settles.
\<close>

datatype 'a promise = Resolved 'a | Rejected error | Pending

fun rejects_ExtensionNotFound :: "'a promise \<Rightarrow> bool" where
  "rejects_ExtensionNotFound (Rejected (ExtensionNotFoundError m)) = True"
| "rejects_ExtensionNotFound p = False"

fun rejects_VersionNotFound :: "'a promise \<Rightarrow> bool" where
  "rejects_VersionNotFound (Rejected (VersionNotFoundError m)) = True"
| "rejects_VersionNotFound p = False"

fun rejects_VsixFileNotFound :: "'a promise \<Rightarrow> bool" where
  "rejects_VsixFileNotFound (Rejected (VsixFileNotFoundError m)) = True"
| "rejects_VsixFileNotFound p = False"

fun rejects_typed :: "'a promise \<Rightarrow> bool" where
  "rejects_typed (Rejected e) = instanceof_VSCodeExtensionError e"
| "rejects_typed p = False"

section \<open>The query payload and the flag encoding\<close>

text \<open>
  JavaScript's \<^verbatim>\<open>a | b\<close> converts both operands to 32-bit integers and yields the signed
  32-bit result. \<open>reduce_flags\<close> is the \<^verbatim>\<open>flags\<close> field of the payload built by
  \<^verbatim>\<open>fetchExtensionData\<close>:
  \<^verbatim>\<open>(flags as number[]).reduce((acc, flag) => acc | flag, 0)\<close>.
\<close>

definition js_bitor :: "int \<Rightarrow> int \<Rightarrow> int" where
  "js_bitor a b = sint ((word_of_int a :: 32 word) OR word_of_int b)"

definition reduce_flags :: "QueryFlag list \<Rightarrow> int" where
  "reduce_flags flags' = foldl (\<lambda>acc flag. js_bitor acc flag) 0 (map number flags')"

record criterion =
  filterType :: int
  "value" :: string

record filter_group =
  criteria :: "criterion list"

record payload =
  filters :: "filter_group list"
  flags :: int

section \<open>The world outside the client\<close>

text \<open>
  What the service reaches through axios and \<^verbatim>\<open>fs\<close> is a parameter of the model. The
  gallery answers the \<open>n\<close>-th POST the client has sent (a gallery may answer the same
  payload differently over time), a download URL serves a byte stream, and a path is
  writable or not. \<^verbatim>\<open>join\<close> of Node's \<^verbatim>\<open>path\<close> module is a parameter too.
\<close>

type_synonym bytes = "char list"

datatype http_response = Ok "SearchResults list" | Failed | NoReply

datatype download = Served bytes | Refused | Broken bytes

record env =
  gallery :: "nat \<Rightarrow> payload \<Rightarrow> http_response"
  cdn :: "string \<Rightarrow> download"
  writable :: "string \<Rightarrow> bool"
  join :: "string \<Rightarrow> string \<Rightarrow> string"

text \<open>
  The state the service acts on: the POST payloads sent so far, the URLs requested with
  GET so far, and the files on local storage.
\<close>

record world =
  posts :: "payload list"
  gets :: "string list"
  disk :: "string \<rightharpoonup> bytes"

type_synonym 'a async = "world \<Rightarrow> 'a promise \<times> world"

text \<open>\<^verbatim>\<open>const x = await m; k(x)\<close>: a rejection of \<open>m\<close> is the rejection of the caller.\<close>

definition await :: "'a async \<Rightarrow> ('a \<Rightarrow> 'b async) \<Rightarrow> 'b async" where
  "await m k w =
     (case m w of
        (Resolved x, w') \<Rightarrow> k x w'
      | (Rejected e, w') \<Rightarrow> (Rejected e, w')
      | (Pending, w') \<Rightarrow> (Pending, w'))"

definition return :: "'a \<Rightarrow> 'a async" where
  "return x w = (Resolved x, w)"

definition throw :: "error \<Rightarrow> 'a async" where
  "throw e w = (Rejected e, w)"

text \<open>
  \<^verbatim>\<open>xs[i]\<close> on a JavaScript array: \<^verbatim>\<open>undefined\<close> out of range, no exception. \<open>None\<close>
  stands for \<^verbatim>\<open>undefined\<close> wherever a value of the source can be \<^verbatim>\<open>undefined\<close>.
\<close>

definition js_index :: "'a list \<Rightarrow> nat \<Rightarrow> 'a option" where
  "js_index xs i = (if i < length xs then Some (xs ! i) else None)"

text \<open>\<^verbatim>\<open>!version\<close> for \<^verbatim>\<open>version?: string\<close>: true for \<^verbatim>\<open>undefined\<close> and for the empty string.\<close>

fun js_not :: "string option \<Rightarrow> bool" where
  "js_not None = True"
| "js_not (Some s) = (s = [])"

section \<open>VSCodeMarketplaceService\<close>

text \<open>
  \<open>payload_of\<close> is the constant \<^verbatim>\<open>payload\<close> of \<^verbatim>\<open>fetchExtensionData\<close>; the POST is logged
  in \<open>posts\<close> and answered by the gallery. \<^verbatim>\<open>response.data.results\<close> is returned as it
  is: a rejected request is the rejection of axios.
\<close>

definition payload_of :: "string \<Rightarrow> string \<Rightarrow> QueryFlag list \<Rightarrow> payload" where
  "payload_of publisher' extension' flags' =
     \<lparr>filters = [\<lparr>criteria = [\<lparr>filterType = 7, value = publisher' @ ''.'' @ extension'\<rparr>]\<rparr>],
      flags = reduce_flags flags'\<rparr>"

definition fetchExtensionData :: "env \<Rightarrow> string \<Rightarrow> string \<Rightarrow> QueryFlag list \<Rightarrow> SearchResults list async" where
  "fetchExtensionData E publisher' extension' flags' w =
     (let payload' = payload_of publisher' extension' flags';
          w' = w\<lparr>posts := posts w @ [payload']\<rparr>
      in case gallery E (length (posts w)) payload' of
           Ok results \<Rightarrow> (Resolved results, w')
         | Failed \<Rightarrow> (Rejected AxiosError, w')
         | NoReply \<Rightarrow> (Pending, w'))"

definition getExtensionInfo :: "env \<Rightarrow> string \<Rightarrow> string \<Rightarrow> QueryFlag list \<Rightarrow> ExtensionInfo async" where
  "getExtensionInfo E publisher' extension' flags' =
     await (fetchExtensionData E publisher' extension' flags') (\<lambda>results.
       case js_index results 0 of
         None \<Rightarrow> throw TypeError
       | Some results0 \<Rightarrow>
           (let extensions' = extensions results0 in
            if length extensions' = 0
            then throw (new_ExtensionNotFoundError ''Extension not found.'')
            else return (extensions' ! 0)))"

definition getExtensionVersion :: "env \<Rightarrow> string \<Rightarrow> string \<Rightarrow> string option \<Rightarrow> ExtensionVersion option async" where
  "getExtensionVersion E publisher' extension' version' =
     await (getExtensionInfo E publisher' extension' [Flag_1, Flag_2]) (\<lambda>extensionInfo.
       if js_not version'
       then return (js_index (versions extensionInfo) 0)
       else
         (case find (\<lambda>v. version v = the version') (versions extensionInfo) of
            None \<Rightarrow> throw (new_VersionNotFoundError ''Version not found.'' (the version'))
          | Some foundVersion \<Rightarrow> return (Some foundVersion)))"

definition VSIXPackage :: string where
  "VSIXPackage = ''Microsoft.VisualStudio.Services.VSIXPackage''"

definition getLatestVersion :: "env \<Rightarrow> string \<Rightarrow> string \<Rightarrow> string async" where
  "getLatestVersion E publisher' extension' =
     await (getExtensionVersion E publisher' extension' None) (\<lambda>latestVersion.
       case latestVersion of
         None \<Rightarrow> throw TypeError
       | Some v \<Rightarrow> return (version v))"

definition getVsixDownloadUrl :: "env \<Rightarrow> string \<Rightarrow> string \<Rightarrow> string async" where
  "getVsixDownloadUrl E publisher' extension' =
     await (getExtensionVersion E publisher' extension' None) (\<lambda>extensionVersion.
       case extensionVersion of
         None \<Rightarrow> throw TypeError
       | Some v \<Rightarrow>
           (case find (\<lambda>file. assetType file = VSIXPackage) (files v) of
              None \<Rightarrow> throw (new_VsixFileNotFoundError ''VSIX file not found.'')
            | Some vsixAsset \<Rightarrow> return (source vsixAsset)))"

text \<open>
  \<^verbatim>\<open>downloadFile\<close>: the GET is awaited first; then the write stream is created and the
  response is piped into it. The promise resolves on the writer's \<^verbatim>\<open>finish\<close> and rejects
  on the writer's \<^verbatim>\<open>error\<close>. \<^verbatim>\<open>pipe\<close> does not forward an error of the response stream:
  the bytes received so far are written, the writer is never ended and the promise
  stays pending. A path that is not writable fails when the stream opens, before any
  content is replaced.
\<close>

definition downloadFile :: "env \<Rightarrow> string \<Rightarrow> string \<Rightarrow> string async" where
  "downloadFile E url destination w =
     (let w' = w\<lparr>gets := gets w @ [url]\<rparr> in
      case cdn E url of
        Refused \<Rightarrow> (Rejected AxiosError, w')
      | Served content \<Rightarrow>
          if writable E destination
          then (Resolved destination, w'\<lparr>disk := (disk w')(destination \<mapsto> content)\<rparr>)
          else (Rejected WriteStreamError, w')
      | Broken content \<Rightarrow>
          if writable E destination
          then (Pending, w'\<lparr>disk := (disk w')(destination \<mapsto> content)\<rparr>)
          else (Rejected WriteStreamError, w'))"

text \<open>\<^verbatim>\<open>outputDir: string = '.'\<close>: the default stands in for an omitted argument.\<close>

fun default_outputDir :: "string option \<Rightarrow> string" where
  "default_outputDir None = ''.''"
| "default_outputDir (Some outputDir) = outputDir"

definition downloadExtensionVsix :: "env \<Rightarrow> string \<Rightarrow> string \<Rightarrow> string option \<Rightarrow> string async" where
  "downloadExtensionVsix E publisher' extension' outputDir =
     await (getExtensionVersion E publisher' extension' None) (\<lambda>extensionVersion.
     await (getVsixDownloadUrl E publisher' extension') (\<lambda>downloadUrl.
       case extensionVersion of
         None \<Rightarrow> throw TypeError
       | Some v \<Rightarrow>
           (let filePath = join E (default_outputDir outputDir)
                             (publisher' @ ''.'' @ extension' @ ''-'' @ version v @ ''.vsix'')
            in downloadFile E downloadUrl filePath)))"

section \<open>The facade VSCodeMarketplaceClient\<close>

text \<open>Each operation of the facade passes its arguments to the one service instance.\<close>

definition Client_getExtensionInfo :: "env \<Rightarrow> string \<Rightarrow> string \<Rightarrow> QueryFlag list \<Rightarrow> ExtensionInfo async" where
  "Client_getExtensionInfo E publisher' extension' flags' =
     getExtensionInfo E publisher' extension' flags'"

definition Client_getExtensionVersion :: "env \<Rightarrow> string \<Rightarrow> string \<Rightarrow> string option \<Rightarrow> ExtensionVersion option async" where
  "Client_getExtensionVersion E publisher' extension' version' =
     getExtensionVersion E publisher' extension' version'"

definition Client_getLatestVersion :: "env \<Rightarrow> string \<Rightarrow> string \<Rightarrow> string async" where
  "Client_getLatestVersion E publisher' extension' = getLatestVersion E publisher' extension'"

definition Client_getVsixDownloadUrl :: "env \<Rightarrow> string \<Rightarrow> string \<Rightarrow> string async" where
  "Client_getVsixDownloadUrl E publisher' extension' = getVsixDownloadUrl E publisher' extension'"

definition Client_downloadExtensionVsix :: "env \<Rightarrow> string \<Rightarrow> string \<Rightarrow> string option \<Rightarrow> string async" where
  "Client_downloadExtensionVsix E publisher' extension' outputDir =
     downloadExtensionVsix E publisher' extension' (Some (default_outputDir outputDir))"

section \<open>A download with one version resolution\<close>

text \<open>
  The variant the specification allows: \<^verbatim>\<open>downloadExtensionVsix\<close> with the version resolved
  once, and that one version used for the file name and for the asset lookup. It is
  written from the specification's words, to be compared with \<open>downloadExtensionVsix\<close>.
\<close>

definition downloadExtensionVsix_single :: "env \<Rightarrow> string \<Rightarrow> string \<Rightarrow> string option \<Rightarrow> string async" where
  "downloadExtensionVsix_single E publisher' extension' outputDir =
     await (getExtensionVersion E publisher' extension' None) (\<lambda>extensionVersion.
       case extensionVersion of
         None \<Rightarrow> throw TypeError
       | Some v \<Rightarrow>
           (case find (\<lambda>file. assetType file = VSIXPackage) (files v) of
              None \<Rightarrow> throw (new_VsixFileNotFoundError ''VSIX file not found.'')
            | Some vsixAsset \<Rightarrow>
                (let filePath = join E (default_outputDir outputDir)
                                  (publisher' @ ''.'' @ extension' @ ''-'' @ version v @ ''.vsix'')
                 in downloadFile E (source vsixAsset) filePath)))"

text \<open>A gallery responds deterministically when its answer depends on the payload only.\<close>

definition deterministic :: "env \<Rightarrow> bool" where
  "deterministic E \<longleftrightarrow> (\<forall>n m q. gallery E n q = gallery E m q)"

section \<open>Node's join on a POSIX platform\<close>

text \<open>
  \<^verbatim>\<open>join\<close> is imported from Node's \<^verbatim>\<open>path\<close> module, whose behaviour depends on the platform;
  the service takes it from the environment. \<open>posix_join\<close> is \<^verbatim>\<open>path.posix.join\<close> for two
  arguments, used by the sample environment: the non-empty arguments are joined with
  \<^verbatim>\<open>/\<close> and the result is normalised. \<^verbatim>\<open>normalizeString\<close> walks the segments between
  slashes: an empty segment and \<^verbatim>\<open>.\<close> are dropped, \<^verbatim>\<open>..\<close> removes the segment before it
  (or is kept, on a relative path with nothing to remove), any other segment is kept.
\<close>

fun split_slash :: "string \<Rightarrow> string list" where
  "split_slash [] = [[]]"
| "split_slash (c # cs) =
     (if c = CHR ''/'' then [] # split_slash cs
      else (case split_slash cs of [] \<Rightarrow> [[c]] | s # ss \<Rightarrow> (c # s) # ss))"

fun join_slash :: "string list \<Rightarrow> string" where
  "join_slash [] = []"
| "join_slash [s] = s"
| "join_slash (s # t # ss) = s @ ''/'' @ join_slash (t # ss)"

definition normalize_step :: "bool \<Rightarrow> string list \<Rightarrow> string \<Rightarrow> string list" where
  "normalize_step allowAboveRoot res seg =
     (if seg = [] \<or> seg = ''.'' then res
      else if seg = ''..'' then
        (if res \<noteq> [] \<and> last res \<noteq> ''..'' then butlast res
         else if allowAboveRoot then res @ [''..'']
         else res)
      else res @ [seg])"

definition normalizeString :: "string \<Rightarrow> bool \<Rightarrow> string" where
  "normalizeString path allowAboveRoot =
     join_slash (foldl (normalize_step allowAboveRoot) [] (split_slash path))"

definition posix_normalize :: "string \<Rightarrow> string" where
  "posix_normalize path =
     (if length path = 0 then ''.''
      else
        (let isAbsolute = (hd path = CHR ''/'');
             trailingSeparator = (last path = CHR ''/'');
             path' = normalizeString path (\<not> isAbsolute)
         in if length path' = 0
            then (if isAbsolute then ''/'' else if trailingSeparator then ''./'' else ''.'')
            else (if isAbsolute then ''/'' else []) @ path' @
                 (if trailingSeparator then ''/'' else [])))"

definition posix_join :: "string \<Rightarrow> string \<Rightarrow> string" where
  "posix_join a b =
     (case filter (\<lambda>arg. length arg > 0) [a, b] of
        [] \<Rightarrow> ''.''
      | args \<Rightarrow> posix_normalize (join_slash args))"

section \<open>A sample gallery\<close>

text \<open>
  The gallery of the examples knows \<^verbatim>\<open>ms-vscode.cpptools\<close> with three versions (not in
  version order; the first has two package entries), \<^verbatim>\<open>acme.single\<close> whose first version
  has one package entry, \<^verbatim>\<open>acme.novsix\<close> whose first version has none,
  \<^verbatim>\<open>acme.noversions\<close> with an empty version list and \<^verbatim>\<open>acme.noresults\<close>, for which it
  answers with no result set at all. For any other identifier it answers with one result
  set of zero extensions. Its download server serves one package, every path
  is writable, and \<^verbatim>\<open>join\<close> is \<open>posix_join\<close>.
\<close>

definition ex_publisher :: PublisherInfo where
  "ex_publisher =
     \<lparr>publisherId = ''5f5636e7'', publisherName = ''ms-vscode'', displayName = ''Microsoft'',
      PublisherInfo.flags = ''verified'', domain = ''https://microsoft.com'',
      isDomainVerified = True\<rparr>"

definition ex_file :: "string \<Rightarrow> string \<Rightarrow> ExtensionFile" where
  "ex_file t s = \<lparr>assetType = t, source = s\<rparr>"

definition ex_version :: "string \<Rightarrow> ExtensionFile list \<Rightarrow> ExtensionVersion" where
  "ex_version n fs =
     \<lparr>version = n, ExtensionVersion.flags = ''validated'',
      ExtensionVersion.lastUpdated = ''2025-01-01T00:00:00Z'', files = fs,
      assetUri = ''https://cdn.example/assets'', fallbackAssetUri = ''https://cdn.example/fallback''\<rparr>"

definition ex_v1 :: ExtensionVersion where
  "ex_v1 = ex_version ''1.2.30''
     [ex_file ''Microsoft.VisualStudio.Code.Manifest'' ''https://cdn.example/1.2.30/package.json'',
      ex_file ''Microsoft.VisualStudio.Services.VSIXPackage'' ''https://cdn.example/1.2.30/a.vsix'',
      ex_file ''Microsoft.VisualStudio.Services.VSIXPackage'' ''https://cdn.example/1.2.30/b.vsix'']"

definition ex_v2 :: ExtensionVersion where
  "ex_v2 = ex_version ''1.2.3''
     [ex_file ''Microsoft.VisualStudio.Services.VSIXPackage'' ''https://cdn.example/1.2.3/a.vsix'']"

definition ex_v3 :: ExtensionVersion where
  "ex_v3 = ex_version ''2.0.0''
     [ex_file ''Microsoft.VisualStudio.Code.Manifest'' ''https://cdn.example/2.0.0/package.json'']"

definition ex_info :: "string \<Rightarrow> ExtensionVersion list \<Rightarrow> ExtensionInfo" where
  "ex_info n vs =
     \<lparr>publisher = ex_publisher, extensionId = ''690b692e'', extensionName = n,
      ExtensionInfo.displayName = ''C/C++'', ExtensionInfo.flags = ''validated, public'',
      ExtensionInfo.lastUpdated = ''2025-01-01T00:00:00Z'',
      publishedDate = ''2016-03-31T00:00:00Z'', releaseDate = ''2016-03-31T00:00:00Z'',
      presentInConflictList = ''0'', shortDescription = ''C/C++ IntelliSense'',
      versions = vs, categories = [''Programming Languages''], tags = [''c'', ''c++''],
      statistics = Map.empty, deploymentType = 0\<rparr>"

definition ex_id :: "payload \<Rightarrow> string list list" where
  "ex_id q = map (\<lambda>f. map value (criteria f)) (filters q)"

definition ex_gallery :: "nat \<Rightarrow> payload \<Rightarrow> http_response" where
  "ex_gallery n q =
     (if ex_id q = [[''ms-vscode.cpptools'']]
      then Ok [\<lparr>extensions = [ex_info ''cpptools'' [ex_v1, ex_v2, ex_v3]]\<rparr>]
      else if ex_id q = [[''acme.single'']]
      then Ok [\<lparr>extensions = [ex_info ''single'' [ex_v2, ex_v3]]\<rparr>]
      else if ex_id q = [[''acme.novsix'']]
      then Ok [\<lparr>extensions = [ex_info ''novsix'' [ex_v3, ex_v2]]\<rparr>]
      else if ex_id q = [[''acme.noversions'']]
      then Ok [\<lparr>extensions = [ex_info ''noversions'' []]\<rparr>]
      else if ex_id q = [[''acme.noresults'']]
      then Ok []
      else Ok [\<lparr>extensions = []\<rparr>])"

definition ex_env :: env where
  "ex_env =
     \<lparr>gallery = ex_gallery,
      cdn = (\<lambda>url. if url = ''https://cdn.example/1.2.30/a.vsix'' then Served ''PK-1.2.30''
                    else Refused),
      writable = (\<lambda>path. True),
      join = posix_join\<rparr>"

definition w0 :: world where
  "w0 = \<lparr>posts = [], gets = [], disk = Map.empty\<rparr>"

text \<open>The world after the sample download of \<^verbatim>\<open>ms-vscode.cpptools\<close> to the given path.\<close>

definition ex_downloaded :: "string \<Rightarrow> world" where
  "ex_downloaded path =
     \<lparr>posts = [payload_of ''ms-vscode'' ''cpptools'' [Flag_1, Flag_2],
               payload_of ''ms-vscode'' ''cpptools'' [Flag_1, Flag_2]],
      gets = [''https://cdn.example/1.2.30/a.vsix''],
      disk = [path \<mapsto> ''PK-1.2.30'']\<rparr>"

section \<open>The flag encoding\<close>

lemma number_range: "0 \<le> number f \<and> number f < 2 ^ 16"
  by (cases f) simp_all

lemma sint_word32_small:
  assumes "0 \<le> x" and "x < 2 ^ 16"
  shows "sint (word_of_int x :: 32 word) = x"
proof -
  have "signed_take_bit 31 x = x"
    by (rule signed_take_bit_int_eq_self) (use assms in simp_all)
  then show ?thesis by (simp add: sint_sbintrunc')
qed

text \<open>Below \<open>2 ^ 16\<close> the 32-bit conversion of \<^verbatim>\<open>|\<close> changes nothing.\<close>

lemma js_bitor_small:
  assumes "0 \<le> a" "a < 2 ^ 16" "0 \<le> b" "b < 2 ^ 16"
  shows "js_bitor a b = a OR b" and "0 \<le> a OR b" and "a OR b < 2 ^ 16"
proof -
  show nn: "0 \<le> a OR b" using assms by simp
  show up: "a OR b < 2 ^ 16" using assms by (intro OR_upper)
  have "(word_of_int a :: 32 word) OR word_of_int b = word_of_int (a OR b)"
    by (simp add: of_int_or_eq)
  then show "js_bitor a b = a OR b"
    using nn up by (simp add: js_bitor_def sint_word32_small)
qed

lemma foldl_js_bitor:
  "0 \<le> acc \<Longrightarrow> acc < 2 ^ 16 \<Longrightarrow>
   foldl (\<lambda>acc flag. js_bitor acc flag) acc (map number fs) = foldl (OR) acc (map number fs)"
proof (induction fs arbitrary: acc)
  case Nil
  then show ?case by simp
next
  case (Cons f fs)
  have r: "0 \<le> number f" "number f < 2 ^ 16" using number_range [of f] by simp_all
  from js_bitor_small [OF Cons.prems r]
  show ?case using Cons.IH [of "acc OR number f"] by simp
qed

lemma bit_foldl_or:
  "bit (foldl (OR) (acc::int) xs) n \<longleftrightarrow> bit acc n \<or> (\<exists>x\<in>set xs. bit x n)"
  by (induction xs arbitrary: acc) (auto simp: bit_or_iff)

lemma foldl_or_nonneg:
  "0 \<le> (acc::int) \<Longrightarrow> \<forall>x\<in>set xs. 0 \<le> x \<Longrightarrow> 0 \<le> foldl (OR) acc xs"
  by (induction xs arbitrary: acc) simp_all

lemma reduce_flags_OR: "reduce_flags fs = foldl (OR) 0 (map number fs)"
  unfolding reduce_flags_def by (rule foldl_js_bitor) simp_all

lemma bit_reduce_flags: "bit (reduce_flags fs) n \<longleftrightarrow> (\<exists>f\<in>set fs. bit (number f) n)"
  by (simp add: reduce_flags_OR bit_foldl_or)

lemma reduce_flags_nonneg: "0 \<le> reduce_flags fs"
  unfolding reduce_flags_OR by (rule foldl_or_nonneg) (simp_all add: number_range)

lemma reduce_flags_mset: "mset fs = mset gs \<Longrightarrow> reduce_flags fs = reduce_flags gs"
proof (rule bit_eqI)
  fix n assume "mset fs = mset gs"
  then have "set fs = set gs" by (rule mset_eq_setD)
  then show "bit (reduce_flags fs) n \<longleftrightarrow> bit (reduce_flags gs) n"
    by (simp add: bit_reduce_flags)
qed

lemma fetchExtensionData_posts:
  "posts (snd (fetchExtensionData E p e fs w)) = posts w @ [payload_of p e fs]"
  by (simp add: fetchExtensionData_def Let_def split: http_response.split)

lemma flags_payload_of: "payload.flags (payload_of p e fs) = reduce_flags fs"
  by (simp add: payload_of_def)

text \<open>
  Claim C6. The \<^verbatim>\<open>flags\<close> field of the payload that \<^verbatim>\<open>fetchExtensionData\<close> sends for a
  sequence of query flags is the bitwise OR of the flags' numbers: a bit is set in it
  exactly when it is set in one of the flags, and the 32-bit conversion of JavaScript's
  \<^verbatim>\<open>|\<close> never shows. It is not negative, the empty sequence gives 0, \<open>[1,2]\<close> gives 3,
  \<open>[256]\<close> gives 256, \<open>[1,2,256]\<close> gives 259, and a permutation of the sequence gives
  the same encoding. The eighteen flags stand for the eighteen literals of the type.
\<close>

theorem flag_encoding_is_bitwise_or:
  "payload.flags (last (posts (snd (fetchExtensionData E p e fs w)))) = reduce_flags fs
   \<and> reduce_flags fs = foldl (OR) 0 (map number fs)
   \<and> (\<forall>n. bit (reduce_flags fs) n \<longleftrightarrow> (\<exists>f\<in>set fs. bit (number f) n))
   \<and> 0 \<le> reduce_flags fs
   \<and> reduce_flags [] = 0
   \<and> reduce_flags [Flag_1, Flag_2] = 3
   \<and> reduce_flags [Flag_256] = 256
   \<and> reduce_flags [Flag_1, Flag_2, Flag_256] = 259
   \<and> (mset fs = mset gs \<longrightarrow> reduce_flags fs = reduce_flags gs)
   \<and> map number
         [Flag_0, Flag_1, Flag_2, Flag_4, Flag_8, Flag_16, Flag_32, Flag_64, Flag_128,
          Flag_256, Flag_512, Flag_1024, Flag_2048, Flag_4096, Flag_8192, Flag_16384,
          Flag_16863, Flag_32768] =
       [0, 1, 2, 4, 8, 16, 32, 64, 128, 256, 512, 1024, 2048, 4096, 8192, 16384,
        16863, 32768]"
proof -
  have sent: "payload.flags (last (posts (snd (fetchExtensionData E p e fs w)))) = reduce_flags fs"
    by (simp add: fetchExtensionData_posts flags_payload_of)
  have e0: "reduce_flags [] = 0"
    by (simp add: reduce_flags_def)
  have e1: "reduce_flags [Flag_1, Flag_2] = 3"
    by (simp add: reduce_flags_def js_bitor_def)
  have e2: "reduce_flags [Flag_256] = 256"
    by (simp add: reduce_flags_def js_bitor_def)
  have e3: "reduce_flags [Flag_1, Flag_2, Flag_256] = 259"
    by (simp add: reduce_flags_def js_bitor_def)
  have nums: "map number
         [Flag_0, Flag_1, Flag_2, Flag_4, Flag_8, Flag_16, Flag_32, Flag_64, Flag_128,
          Flag_256, Flag_512, Flag_1024, Flag_2048, Flag_4096, Flag_8192, Flag_16384,
          Flag_16863, Flag_32768] =
       [0, 1, 2, 4, 8, 16, 32, 64, 128, 256, 512, 1024, 2048, 4096, 8192, 16384,
        16863, 32768]"
    by simp
  show ?thesis
    using sent e0 e1 e2 e3 nums reduce_flags_OR [of fs] bit_reduce_flags [of fs]
      reduce_flags_nonneg [of fs] reduce_flags_mset [of fs gs]
    by blast
qed

theorem flag_encoding_is_bitwise_or_witness:
  "mset [Flag_1, Flag_2, Flag_256] = mset [Flag_256, Flag_1, Flag_2]
   \<and> reduce_flags [Flag_1, Flag_2, Flag_256] = reduce_flags [Flag_256, Flag_1, Flag_2]
   \<and> reduce_flags [Flag_256, Flag_1, Flag_2] = 259"
  using flag_encoding_is_bitwise_or [of ex_env "''ms-vscode''" "''cpptools''"
      "[Flag_1, Flag_2, Flag_256]" w0 "[Flag_256, Flag_1, Flag_2]"]
  by simp

section \<open>Extension resolution\<close>

text \<open>What \<^verbatim>\<open>getExtensionInfo\<close> settles with once the gallery has answered.\<close>

lemma getExtensionInfo_Ok:
  assumes "gallery E (length (posts w)) (payload_of p e fs) = Ok rs"
  shows "getExtensionInfo E p e fs w =
     ((case rs of
         [] \<Rightarrow> Rejected TypeError
       | r0 # _ \<Rightarrow>
           (case extensions r0 of
              [] \<Rightarrow> Rejected (new_ExtensionNotFoundError ''Extension not found.'')
            | x # _ \<Rightarrow> Resolved x)),
      w\<lparr>posts := posts w @ [payload_of p e fs]\<rparr>)"
  using assms
  by (simp add: getExtensionInfo_def fetchExtensionData_def await_def return_def throw_def
      js_index_def Let_def split: list.split)

lemma getExtensionInfo_zero_extensions:
  assumes "gallery E (length (posts w)) (payload_of p e fs) = Ok (r0 # rs)"
    and "extensions r0 = []"
  shows "getExtensionInfo E p e fs w =
     (Rejected (new_ExtensionNotFoundError ''Extension not found.''),
      w\<lparr>posts := posts w @ [payload_of p e fs]\<rparr>)"
  by (simp add: getExtensionInfo_Ok [OF assms(1)] assms(2))

lemma ex_gallery_cpptools:
  "gallery ex_env n (payload_of ''ms-vscode'' ''cpptools'' fs) =
     Ok [\<lparr>extensions = [ex_info ''cpptools'' [ex_v1, ex_v2, ex_v3]]\<rparr>]"
  by (simp add: ex_env_def ex_gallery_def ex_id_def payload_of_def)

lemma ex_gallery_single:
  "gallery ex_env n (payload_of ''acme'' ''single'' fs) =
     Ok [\<lparr>extensions = [ex_info ''single'' [ex_v2, ex_v3]]\<rparr>]"
  by (simp add: ex_env_def ex_gallery_def ex_id_def payload_of_def)

lemma ex_gallery_novsix:
  "gallery ex_env n (payload_of ''acme'' ''novsix'' fs) =
     Ok [\<lparr>extensions = [ex_info ''novsix'' [ex_v3, ex_v2]]\<rparr>]"
  by (simp add: ex_env_def ex_gallery_def ex_id_def payload_of_def)

lemma ex_gallery_noversions:
  "gallery ex_env n (payload_of ''acme'' ''noversions'' fs) =
     Ok [\<lparr>extensions = [ex_info ''noversions'' []]\<rparr>]"
  by (simp add: ex_env_def ex_gallery_def ex_id_def payload_of_def)

lemma ex_gallery_noresults:
  "gallery ex_env n (payload_of ''acme'' ''noresults'' fs) = Ok []"
  by (simp add: ex_env_def ex_gallery_def ex_id_def payload_of_def)

lemma ex_gallery_nonexistent:
  "gallery ex_env n (payload_of ''nonexistent'' ''invalid-extension'' fs) =
     Ok [\<lparr>extensions = []\<rparr>]"
  by (simp add: ex_env_def ex_gallery_def ex_id_def payload_of_def)

text \<open>
  Claim C1. When the gallery's answer to the query has a first result set with zero
  extensions, \<^verbatim>\<open>getExtensionInfo\<close> rejects with \<^verbatim>\<open>ExtensionNotFoundError\<close> and resolves
  with no value, and so does every other operation of the facade (whose query carries
  the flags 1 and 2): \<^verbatim>\<open>getExtensionVersion\<close> with or without a version,
  \<^verbatim>\<open>getLatestVersion\<close>, \<^verbatim>\<open>getVsixDownloadUrl\<close> and \<^verbatim>\<open>downloadExtensionVsix\<close>. The error
  is a \<^verbatim>\<open>VSCodeExtensionError\<close>, not a generic failure.
\<close>

theorem zero_extensions_reject_ExtensionNotFound:
  assumes "gallery E (length (posts w)) (payload_of p e fs) = Ok (r0 # rs)"
    and "extensions r0 = []"
    and "gallery E (length (posts w)) (payload_of p e [Flag_1, Flag_2]) = Ok (r0' # rs')"
    and "extensions r0' = []"
  shows "fst (Client_getExtensionInfo E p e fs w) =
           Rejected (new_ExtensionNotFoundError ''Extension not found.'')
    \<and> fst (Client_getExtensionVersion E p e ver w) =
           Rejected (new_ExtensionNotFoundError ''Extension not found.'')
    \<and> fst (Client_getLatestVersion E p e w) =
           Rejected (new_ExtensionNotFoundError ''Extension not found.'')
    \<and> fst (Client_getVsixDownloadUrl E p e w) =
           Rejected (new_ExtensionNotFoundError ''Extension not found.'')
    \<and> fst (Client_downloadExtensionVsix E p e dir w) =
           Rejected (new_ExtensionNotFoundError ''Extension not found.'')
    \<and> rejects_ExtensionNotFound (fst (Client_getExtensionInfo E p e fs w))
    \<and> rejects_typed (fst (Client_getExtensionInfo E p e fs w))
    \<and> (\<forall>x. fst (Client_getExtensionInfo E p e fs w) \<noteq> Resolved x)"
proof -
  note i = getExtensionInfo_zero_extensions [OF assms(1,2)]
  note j = getExtensionInfo_zero_extensions [OF assms(3,4)]
  have v: "getExtensionVersion E p e ver' w =
      (Rejected (new_ExtensionNotFoundError ''Extension not found.''),
       w\<lparr>posts := posts w @ [payload_of p e [Flag_1, Flag_2]]\<rparr>)" for ver'
    by (simp add: getExtensionVersion_def await_def j)
  have l: "fst (getLatestVersion E p e w) =
      Rejected (new_ExtensionNotFoundError ''Extension not found.'')"
    by (simp add: getLatestVersion_def await_def v)
  have u: "fst (getVsixDownloadUrl E p e w) =
      Rejected (new_ExtensionNotFoundError ''Extension not found.'')"
    by (simp add: getVsixDownloadUrl_def await_def v)
  have d: "fst (downloadExtensionVsix E p e dir' w) =
      Rejected (new_ExtensionNotFoundError ''Extension not found.'')" for dir'
    by (simp add: downloadExtensionVsix_def await_def v)
  show ?thesis
    by (simp add: Client_getExtensionInfo_def Client_getExtensionVersion_def
        Client_getLatestVersion_def Client_getVsixDownloadUrl_def
        Client_downloadExtensionVsix_def i v l u d new_ExtensionNotFoundError_def)
qed

theorem zero_extensions_reject_ExtensionNotFound_witness:
  "fst (Client_getExtensionInfo ex_env ''nonexistent'' ''invalid-extension''
          [Flag_1, Flag_256] w0) =
           Rejected (new_ExtensionNotFoundError ''Extension not found.'')
    \<and> fst (Client_getExtensionVersion ex_env ''nonexistent'' ''invalid-extension''
          (Some ''1.0.0'') w0) =
           Rejected (new_ExtensionNotFoundError ''Extension not found.'')
    \<and> fst (Client_getLatestVersion ex_env ''nonexistent'' ''invalid-extension'' w0) =
           Rejected (new_ExtensionNotFoundError ''Extension not found.'')
    \<and> fst (Client_getVsixDownloadUrl ex_env ''nonexistent'' ''invalid-extension'' w0) =
           Rejected (new_ExtensionNotFoundError ''Extension not found.'')
    \<and> fst (Client_downloadExtensionVsix ex_env ''nonexistent'' ''invalid-extension'' None w0) =
           Rejected (new_ExtensionNotFoundError ''Extension not found.'')"
  using zero_extensions_reject_ExtensionNotFound
     [of ex_env w0 "''nonexistent''" "''invalid-extension''" "[Flag_1, Flag_256]"
      "\<lparr>extensions = []\<rparr>" "[]" "\<lparr>extensions = []\<rparr>" "[]" "Some ''1.0.0''" None]
  by (simp add: ex_gallery_nonexistent)

text \<open>
  Claim C9. When the gallery's answer has no result set at all, \<^verbatim>\<open>results[0]\<close> is
  \<^verbatim>\<open>undefined\<close> and \<^verbatim>\<open>getExtensionInfo\<close> reads \<^verbatim>\<open>.extensions\<close> of it with no guard: the
  operation rejects with the \<^verbatim>\<open>TypeError\<close> of the runtime, a generic failure, and not
  with \<^verbatim>\<open>ExtensionNotFoundError\<close> or any other typed error.
\<close>

theorem empty_results_reject_TypeError:
  assumes "gallery E (length (posts w)) (payload_of p e fs) = Ok []"
  shows "fst (getExtensionInfo E p e fs w) = Rejected TypeError
    \<and> \<not> rejects_ExtensionNotFound (fst (getExtensionInfo E p e fs w))
    \<and> \<not> rejects_typed (fst (getExtensionInfo E p e fs w))"
  by (simp add: getExtensionInfo_Ok [OF assms])

theorem empty_results_reject_TypeError_witness:
  "gallery ex_env (length (posts w0)) (payload_of ''acme'' ''noresults'' [Flag_1]) = Ok []
   \<and> fst (getExtensionInfo ex_env ''acme'' ''noresults'' [Flag_1] w0) = Rejected TypeError"
  using empty_results_reject_TypeError [of ex_env w0 "''acme''" "''noresults''" "[Flag_1]"]
  by (simp add: ex_gallery_noresults)

section \<open>Version resolution\<close>

lemma getExtensionVersion_Resolved:
  assumes "getExtensionInfo E p e [Flag_1, Flag_2] w = (Resolved info, w')"
  shows "getExtensionVersion E p e ver w =
     ((if js_not ver then Resolved (js_index (versions info) 0)
       else (case find (\<lambda>v. version v = the ver) (versions info) of
               None \<Rightarrow> Rejected (new_VersionNotFoundError ''Version not found.'' (the ver))
             | Some foundVersion \<Rightarrow> Resolved (Some foundVersion))),
      w')"
  by (simp add: getExtensionVersion_def await_def assms return_def throw_def split: option.split)

lemma getExtensionVersion_Rejected:
  assumes "getExtensionInfo E p e [Flag_1, Flag_2] w = (Rejected err, w')"
  shows "getExtensionVersion E p e ver w = (Rejected err, w')"
  by (simp add: getExtensionVersion_def await_def assms)

lemma getExtensionVersion_Pending:
  assumes "getExtensionInfo E p e [Flag_1, Flag_2] w = (Pending, w')"
  shows "getExtensionVersion E p e ver w = (Pending, w')"
  by (simp add: getExtensionVersion_def await_def assms)

text \<open>A metadata operation sends one POST and touches nothing else.\<close>

lemma getExtensionInfo_world:
  "snd (getExtensionInfo E p e fs w) = w\<lparr>posts := posts w @ [payload_of p e fs]\<rparr>"
  by (simp add: getExtensionInfo_def fetchExtensionData_def await_def return_def throw_def
      js_index_def Let_def split: list.split http_response.split)

lemma getExtensionVersion_world:
  "snd (getExtensionVersion E p e ver w) =
     w\<lparr>posts := posts w @ [payload_of p e [Flag_1, Flag_2]]\<rparr>"
proof (cases "getExtensionInfo E p e [Flag_1, Flag_2] w")
  case (Pair r w')
  have w': "w' = w\<lparr>posts := posts w @ [payload_of p e [Flag_1, Flag_2]]\<rparr>"
    using getExtensionInfo_world [of E p e "[Flag_1, Flag_2]" w] Pair by simp
  show ?thesis
  proof (cases r)
    case (Resolved info)
    then show ?thesis using Pair w' by (simp add: getExtensionVersion_Resolved)
  next
    case (Rejected err)
    then show ?thesis using Pair w' by (simp add: getExtensionVersion_Rejected)
  next
    case Pending
    then show ?thesis using Pair w' by (simp add: getExtensionVersion_Pending)
  qed
qed

lemma flags_1_2: "payload.flags (payload_of p e [Flag_1, Flag_2]) = 3"
  by (simp add: payload_of_def reduce_flags_def js_bitor_def)

lemma ex_getExtensionInfo_cpptools:
  "getExtensionInfo ex_env ''ms-vscode'' ''cpptools'' fs w0 =
     (Resolved (ex_info ''cpptools'' [ex_v1, ex_v2, ex_v3]),
      w0\<lparr>posts := [payload_of ''ms-vscode'' ''cpptools'' fs]\<rparr>)"
  by (simp add: getExtensionInfo_Ok [OF ex_gallery_cpptools] w0_def)

lemma ex_getExtensionInfo_noversions:
  "getExtensionInfo ex_env ''acme'' ''noversions'' fs w0 =
     (Resolved (ex_info ''noversions'' []),
      w0\<lparr>posts := [payload_of ''acme'' ''noversions'' fs]\<rparr>)"
  by (simp add: getExtensionInfo_Ok [OF ex_gallery_noversions] w0_def)

lemma ex_versions: "versions (ex_info n vs) = vs"
  by (simp add: ex_info_def)

text \<open>
  Claim C2. \<^verbatim>\<open>getExtensionVersion\<close> with the version argument omitted sends exactly one
  query, whose flags are \<open>[1, 2]\<close>, bitmask 3; when that query resolves to an
  \<^verbatim>\<open>ExtensionInfo\<close>, the operation resolves with \<^verbatim>\<open>versions[0]\<close> of it, whatever the
  version strings in the list are (no comparison, no sorting); when the query rejects,
  the operation rejects with the same error.
\<close>

theorem no_version_returns_versions_0:
  "posts (snd (getExtensionVersion E p e None w)) = posts w @ [payload_of p e [Flag_1, Flag_2]]
   \<and> payload.flags (payload_of p e [Flag_1, Flag_2]) = 3
   \<and> (\<forall>info w'. getExtensionInfo E p e [Flag_1, Flag_2] w = (Resolved info, w') \<longrightarrow>
         getExtensionVersion E p e None w = (Resolved (js_index (versions info) 0), w'))
   \<and> (\<forall>info w' v vs. getExtensionInfo E p e [Flag_1, Flag_2] w = (Resolved info, w') \<longrightarrow>
         versions info = v # vs \<longrightarrow>
         getExtensionVersion E p e None w = (Resolved (Some v), w'))
   \<and> (\<forall>err w'. getExtensionInfo E p e [Flag_1, Flag_2] w = (Rejected err, w') \<longrightarrow>
         getExtensionVersion E p e None w = (Rejected err, w'))"
  by (simp add: getExtensionVersion_world flags_1_2 getExtensionVersion_Resolved
      getExtensionVersion_Rejected js_index_def)

theorem no_version_returns_versions_0_witness:
  "getExtensionInfo ex_env ''ms-vscode'' ''cpptools'' [Flag_1, Flag_2] w0 =
     (Resolved (ex_info ''cpptools'' [ex_v1, ex_v2, ex_v3]),
      w0\<lparr>posts := [payload_of ''ms-vscode'' ''cpptools'' [Flag_1, Flag_2]]\<rparr>)
   \<and> versions (ex_info ''cpptools'' [ex_v1, ex_v2, ex_v3]) = [ex_v1, ex_v2, ex_v3]
   \<and> getExtensionVersion ex_env ''ms-vscode'' ''cpptools'' None w0 =
     (Resolved (Some ex_v1),
      w0\<lparr>posts := [payload_of ''ms-vscode'' ''cpptools'' [Flag_1, Flag_2]]\<rparr>)"
  using no_version_returns_versions_0 [of ex_env "''ms-vscode''" "''cpptools''" w0]
  by (simp add: ex_getExtensionInfo_cpptools ex_versions js_index_def)

text \<open>
  Claim C7, the code at the failing input. For an extension whose \<^verbatim>\<open>versions\<close> list is
  empty, \<^verbatim>\<open>getExtensionVersion\<close> with no version argument resolves with \<^verbatim>\<open>undefined\<close>: the
  absence of a version is returned silently and no typed error is raised.
  \<^verbatim>\<open>getLatestVersion\<close> then fails on \<^verbatim>\<open>undefined.version\<close> with a \<^verbatim>\<open>TypeError\<close>.
\<close>

theorem empty_versions_resolve_undefined:
  "versions (ex_info ''noversions'' []) = []
   \<and> fst (getExtensionVersion ex_env ''acme'' ''noversions'' None w0) = Resolved None
   \<and> fst (getLatestVersion ex_env ''acme'' ''noversions'' w0) = Rejected TypeError"
  by (simp add: getExtensionVersion_Resolved [OF ex_getExtensionInfo_noversions]
      getLatestVersion_def await_def throw_def js_index_def ex_versions)

lemma find_filter_single: "filter P xs = [x] \<Longrightarrow> find P xs = Some x"
  by (induction xs) (auto split: if_splits)

lemma find_version_None:
  "ver \<notin> set (map version vs) \<Longrightarrow> find (\<lambda>v. version v = ver) vs = None"
  by (auto simp: find_None_iff)

lemma new_VersionNotFoundError_carries_version:
  "\<exists>pre post. new_VersionNotFoundError eid ver = VersionNotFoundError (pre @ ver @ post)"
  unfolding new_VersionNotFoundError_def by blast

lemma ex_version_names:
  "version ex_v1 = ''1.2.30''" "version ex_v2 = ''1.2.3''" "version ex_v3 = ''2.0.0''"
  by (simp_all add: ex_v1_def ex_v2_def ex_v3_def ex_version_def)

text \<open>
  Claim C3 as stated fails on the code. The guard \<^verbatim>\<open>if (!version)\<close> is true for the empty
  string too, so a call with the version string \<^verbatim>\<open>""\<close>, which no entry matches,
  resolves with \<^verbatim>\<open>versions[0]\<close> instead of rejecting with \<^verbatim>\<open>VersionNotFoundError\<close>. And
  the error raised for an unmatched version is built with the literal
  \<^verbatim>\<open>'Version not found.'\<close> in the place of the extension identifier: for any publisher and
  extension it is the same value, naming the requested version only.
\<close>

theorem version_argument_counterexample:
  "'''' \<notin> set (map version (versions (ex_info ''cpptools'' [ex_v1, ex_v2, ex_v3])))
   \<and> fst (getExtensionVersion ex_env ''ms-vscode'' ''cpptools'' (Some '''') w0) =
       Resolved (Some ex_v1)
   \<and> \<not> rejects_VersionNotFound
         (fst (getExtensionVersion ex_env ''ms-vscode'' ''cpptools'' (Some '''') w0))
   \<and> fst (getExtensionVersion ex_env ''ms-vscode'' ''cpptools'' (Some ''9.9.9'') w0) =
       Rejected (new_VersionNotFoundError ''Version not found.'' ''9.9.9'')"
  by (simp add: getExtensionVersion_Resolved [OF ex_getExtensionInfo_cpptools] ex_versions
      ex_version_names js_index_def find_version_None)

text \<open>
  Claim C3, amended. For a call of \<^verbatim>\<open>getExtensionVersion\<close> with a non-empty version string,
  on a resolved \<^verbatim>\<open>ExtensionInfo\<close>: if exactly one entry of \<^verbatim>\<open>versions\<close> has a \<^verbatim>\<open>version\<close>
  field equal to the argument as a string, that entry is the result; if no entry has,
  the operation rejects with a \<^verbatim>\<open>VersionNotFoundError\<close> whose message carries the
  requested version string. A call with the empty string behaves as a call with no
  version argument.
\<close>

theorem version_argument_exact_match:
  assumes "getExtensionInfo E p e [Flag_1, Flag_2] w = (Resolved info, w')"
    and "ver \<noteq> []"
  shows "(\<forall>x. filter (\<lambda>v. version v = ver) (versions info) = [x] \<longrightarrow>
            getExtensionVersion E p e (Some ver) w = (Resolved (Some x), w'))
    \<and> (ver \<notin> set (map version (versions info)) \<longrightarrow>
         (\<exists>eid. getExtensionVersion E p e (Some ver) w =
                  (Rejected (new_VersionNotFoundError eid ver), w'))
         \<and> (\<exists>pre post. getExtensionVersion E p e (Some ver) w =
                  (Rejected (VersionNotFoundError (pre @ ver @ post)), w'))
         \<and> rejects_VersionNotFound (fst (getExtensionVersion E p e (Some ver) w)))
    \<and> getExtensionVersion E p e (Some []) w = getExtensionVersion E p e None w"
proof -
  note r = getExtensionVersion_Resolved [OF assms(1)]
  have a: "getExtensionVersion E p e (Some ver) w = (Resolved (Some x), w')"
    if "filter (\<lambda>v. version v = ver) (versions info) = [x]" for x
    using find_filter_single [OF that] assms(2) by (simp add: r)
  have b: "getExtensionVersion E p e (Some ver) w =
      (Rejected (new_VersionNotFoundError ''Version not found.'' ver), w')"
    if "ver \<notin> set (map version (versions info))"
    using find_version_None [OF that] assms(2) by (simp add: r)
  have c: "getExtensionVersion E p e (Some []) w = getExtensionVersion E p e None w"
    by (simp add: r)
  from b have b': "rejects_VersionNotFound (fst (getExtensionVersion E p e (Some ver) w))"
    if "ver \<notin> set (map version (versions info))"
    using that by (simp add: new_VersionNotFoundError_def)
  from b have b'': "\<exists>pre post. getExtensionVersion E p e (Some ver) w =
      (Rejected (VersionNotFoundError (pre @ ver @ post)), w')"
    if "ver \<notin> set (map version (versions info))"
    using that new_VersionNotFoundError_carries_version [of "''Version not found.''" ver]
    by auto
  show ?thesis using a b b' b'' c by blast
qed

theorem version_argument_exact_match_witness:
  "filter (\<lambda>v. version v = ''1.2.3'')
      (versions (ex_info ''cpptools'' [ex_v1, ex_v2, ex_v3])) = [ex_v2]
   \<and> fst (getExtensionVersion ex_env ''ms-vscode'' ''cpptools'' (Some ''1.2.3'') w0) =
       Resolved (Some ex_v2)
   \<and> ''9.9.9'' \<notin> set (map version (versions (ex_info ''cpptools'' [ex_v1, ex_v2, ex_v3])))
   \<and> rejects_VersionNotFound
       (fst (getExtensionVersion ex_env ''ms-vscode'' ''cpptools'' (Some ''9.9.9'') w0))"
proof -
  have f: "filter (\<lambda>v. version v = ''1.2.3'')
      (versions (ex_info ''cpptools'' [ex_v1, ex_v2, ex_v3])) = [ex_v2]"
    by (simp add: ex_versions ex_version_names)
  have n: "''9.9.9'' \<notin> set (map version (versions (ex_info ''cpptools'' [ex_v1, ex_v2, ex_v3])))"
    by (simp add: ex_versions ex_version_names)
  show ?thesis
    using f n
      version_argument_exact_match [OF ex_getExtensionInfo_cpptools, of "''1.2.3''"]
      version_argument_exact_match [OF ex_getExtensionInfo_cpptools, of "''9.9.9''"]
    by simp
qed

section \<open>Asset location\<close>

lemma find_filter_Cons: "filter P xs = x # rest \<Longrightarrow> find P xs = Some x"
  by (induction xs) (auto split: if_splits)

lemma find_first_match:
  "\<forall>y\<in>set pre. \<not> P y \<Longrightarrow> P f \<Longrightarrow> find P (pre @ f # post) = Some f"
  by (induction pre) simp_all

lemma find_assetType_None:
  "t \<notin> set (map assetType fs) \<Longrightarrow> find (\<lambda>file. assetType file = t) fs = None"
  by (auto simp: find_None_iff)

lemma find_assetType_Some:
  "t \<in> set (map assetType fs) \<Longrightarrow>
     \<exists>f\<in>set fs. assetType f = t \<and> find (\<lambda>file. assetType file = t) fs = Some f"
proof -
  assume "t \<in> set (map assetType fs)"
  then have "find (\<lambda>file. assetType file = t) fs \<noteq> None"
    by (auto simp: find_None_iff)
  then obtain f where f: "find (\<lambda>file. assetType file = t) fs = Some f" by blast
  then have "f \<in> set fs \<and> assetType f = t"
    by (auto simp: find_Some_iff)
  with f show ?thesis by blast
qed

lemma getVsixDownloadUrl_Resolved:
  assumes "getExtensionVersion E p e None w = (Resolved (Some v), w')"
  shows "getVsixDownloadUrl E p e w =
     ((case find (\<lambda>file. assetType file = VSIXPackage) (files v) of
         None \<Rightarrow> Rejected (new_VsixFileNotFoundError ''VSIX file not found.'')
       | Some vsixAsset \<Rightarrow> Resolved (source vsixAsset)),
      w')"
  by (simp add: getVsixDownloadUrl_def await_def assms return_def throw_def split: option.split)

lemma ex_getExtensionVersion_cpptools:
  "getExtensionVersion ex_env ''ms-vscode'' ''cpptools'' None w0 =
     (Resolved (Some ex_v1),
      w0\<lparr>posts := [payload_of ''ms-vscode'' ''cpptools'' [Flag_1, Flag_2]]\<rparr>)"
  by (simp add: getExtensionVersion_Resolved [OF ex_getExtensionInfo_cpptools] ex_versions
      js_index_def)

lemma ex_getExtensionVersion_single:
  "getExtensionVersion ex_env ''acme'' ''single'' None w0 =
     (Resolved (Some ex_v2), w0\<lparr>posts := [payload_of ''acme'' ''single'' [Flag_1, Flag_2]]\<rparr>)"
  by (simp add: getExtensionVersion_def await_def return_def
      getExtensionInfo_Ok [OF ex_gallery_single] w0_def ex_versions js_index_def)

lemma ex_getExtensionVersion_novsix:
  "getExtensionVersion ex_env ''acme'' ''novsix'' None w0 =
     (Resolved (Some ex_v3), w0\<lparr>posts := [payload_of ''acme'' ''novsix'' [Flag_1, Flag_2]]\<rparr>)"
  by (simp add: getExtensionVersion_def await_def return_def
      getExtensionInfo_Ok [OF ex_gallery_novsix] w0_def ex_versions js_index_def)

lemma ex_files:
  "files ex_v1 =
     [ex_file ''Microsoft.VisualStudio.Code.Manifest'' ''https://cdn.example/1.2.30/package.json'',
      ex_file VSIXPackage ''https://cdn.example/1.2.30/a.vsix'',
      ex_file VSIXPackage ''https://cdn.example/1.2.30/b.vsix'']"
  "files ex_v2 = [ex_file VSIXPackage ''https://cdn.example/1.2.3/a.vsix'']"
  "files ex_v3 =
     [ex_file ''Microsoft.VisualStudio.Code.Manifest'' ''https://cdn.example/2.0.0/package.json'']"
  by (simp_all add: ex_v1_def ex_v2_def ex_v3_def ex_version_def VSIXPackage_def)

lemma ex_file_sel: "assetType (ex_file t s) = t" "source (ex_file t s) = s"
  by (simp_all add: ex_file_def)

lemma Manifest_not_VSIXPackage: "''Microsoft.VisualStudio.Code.Manifest'' \<noteq> VSIXPackage"
  by (simp add: VSIXPackage_def)

text \<open>
  Claim C4. On a resolved latest version, \<^verbatim>\<open>getVsixDownloadUrl\<close> resolves with the
  \<^verbatim>\<open>source\<close> of the file entry whose \<^verbatim>\<open>assetType\<close> equals the string
  \<^verbatim>\<open>Microsoft.VisualStudio.Services.VSIXPackage\<close>; when the \<^verbatim>\<open>files\<close> list has no entry of that
  asset type, the operation rejects with \<^verbatim>\<open>VsixFileNotFoundError\<close> and resolves with no
  value.
\<close>

theorem vsix_url_is_source_of_package_entry:
  assumes "getExtensionVersion E p e None w = (Resolved (Some v), w')"
  shows "(\<forall>f. filter (\<lambda>file. assetType file = VSIXPackage) (files v) = [f] \<longrightarrow>
            getVsixDownloadUrl E p e w = (Resolved (source f), w'))
    \<and> (VSIXPackage \<in> set (map assetType (files v)) \<longrightarrow>
         (\<exists>f\<in>set (files v). assetType f = VSIXPackage
              \<and> getVsixDownloadUrl E p e w = (Resolved (source f), w')))
    \<and> (VSIXPackage \<notin> set (map assetType (files v)) \<longrightarrow>
         getVsixDownloadUrl E p e w =
           (Rejected (new_VsixFileNotFoundError ''VSIX file not found.''), w')
         \<and> rejects_VsixFileNotFound (fst (getVsixDownloadUrl E p e w))
         \<and> (\<forall>url. fst (getVsixDownloadUrl E p e w) \<noteq> Resolved url))
    \<and> VSIXPackage = ''Microsoft.VisualStudio.Services.VSIXPackage''"
proof -
  note r = getVsixDownloadUrl_Resolved [OF assms]
  have a: "getVsixDownloadUrl E p e w = (Resolved (source f), w')"
    if "filter (\<lambda>file. assetType file = VSIXPackage) (files v) = [f]" for f
    using find_filter_Cons [OF that] by (simp add: r)
  have b: "\<exists>f\<in>set (files v). assetType f = VSIXPackage
              \<and> getVsixDownloadUrl E p e w = (Resolved (source f), w')"
    if "VSIXPackage \<in> set (map assetType (files v))"
    using find_assetType_Some [OF that] by (auto simp: r)
  have c: "getVsixDownloadUrl E p e w =
           (Rejected (new_VsixFileNotFoundError ''VSIX file not found.''), w')"
    if "VSIXPackage \<notin> set (map assetType (files v))"
    using find_assetType_None [OF that] by (simp add: r)
  have d: "rejects_VsixFileNotFound (fst (getVsixDownloadUrl E p e w))
         \<and> (\<forall>url. fst (getVsixDownloadUrl E p e w) \<noteq> Resolved url)"
    if "VSIXPackage \<notin> set (map assetType (files v))"
    using c [OF that] by (simp add: new_VsixFileNotFoundError_def)
  show ?thesis using a b c d by (simp add: VSIXPackage_def)
qed

theorem vsix_url_is_source_of_package_entry_witness:
  "filter (\<lambda>file. assetType file = VSIXPackage) (files ex_v2) =
      [ex_file VSIXPackage ''https://cdn.example/1.2.3/a.vsix'']
   \<and> fst (getVsixDownloadUrl ex_env ''acme'' ''single'' w0) =
      Resolved ''https://cdn.example/1.2.3/a.vsix''
   \<and> VSIXPackage \<notin> set (map assetType (files ex_v3))
   \<and> rejects_VsixFileNotFound (fst (getVsixDownloadUrl ex_env ''acme'' ''novsix'' w0))"
proof -
  have f: "filter (\<lambda>file. assetType file = VSIXPackage) (files ex_v2) =
      [ex_file VSIXPackage ''https://cdn.example/1.2.3/a.vsix'']"
    by (simp add: ex_files ex_file_sel)
  have n: "VSIXPackage \<notin> set (map assetType (files ex_v3))"
    using Manifest_not_VSIXPackage by (simp add: ex_files ex_file_sel)
  show ?thesis
    using f n vsix_url_is_source_of_package_entry [OF ex_getExtensionVersion_single] vsix_url_is_source_of_package_entry [OF ex_getExtensionVersion_novsix]
    by (simp add: ex_file_sel new_VsixFileNotFoundError_def)
qed

text \<open>
  Claim C10. When the \<^verbatim>\<open>files\<close> list of the resolved version has several entries of the
  package asset type, \<^verbatim>\<open>getVsixDownloadUrl\<close> resolves with the \<^verbatim>\<open>source\<close> of the first of
  them in the order of \<^verbatim>\<open>files\<close>: the head of the matching entries, that is the entry
  with no match before it.
\<close>

theorem first_package_entry_wins:
  assumes "getExtensionVersion E p e None w = (Resolved (Some v), w')"
  shows "(\<forall>f rest. filter (\<lambda>file. assetType file = VSIXPackage) (files v) = f # rest \<longrightarrow>
            getVsixDownloadUrl E p e w = (Resolved (source f), w'))
    \<and> (\<forall>pre f post. files v = pre @ f # post \<longrightarrow>
            VSIXPackage \<notin> set (map assetType pre) \<longrightarrow> assetType f = VSIXPackage \<longrightarrow>
            getVsixDownloadUrl E p e w = (Resolved (source f), w'))"
proof -
  note r = getVsixDownloadUrl_Resolved [OF assms]
  have a: "getVsixDownloadUrl E p e w = (Resolved (source f), w')"
    if "filter (\<lambda>file. assetType file = VSIXPackage) (files v) = f # rest" for f rest
    using find_filter_Cons [OF that] by (simp add: r)
  have b: "getVsixDownloadUrl E p e w = (Resolved (source f), w')"
    if "files v = pre @ f # post" "VSIXPackage \<notin> set (map assetType pre)"
      "assetType f = VSIXPackage" for pre f post
  proof -
    have "find (\<lambda>file. assetType file = VSIXPackage) (pre @ f # post) = Some f"
      by (rule find_first_match) (use that in \<open>force+\<close>)
    then show ?thesis using that(1) by (simp add: r)
  qed
  show ?thesis using a b by blast
qed

theorem first_package_entry_wins_witness:
  "filter (\<lambda>file. assetType file = VSIXPackage) (files ex_v1) =
      [ex_file VSIXPackage ''https://cdn.example/1.2.30/a.vsix'',
       ex_file VSIXPackage ''https://cdn.example/1.2.30/b.vsix'']
   \<and> fst (getVsixDownloadUrl ex_env ''ms-vscode'' ''cpptools'' w0) =
      Resolved ''https://cdn.example/1.2.30/a.vsix''"
proof -
  have f: "filter (\<lambda>file. assetType file = VSIXPackage) (files ex_v1) =
      [ex_file VSIXPackage ''https://cdn.example/1.2.30/a.vsix'',
       ex_file VSIXPackage ''https://cdn.example/1.2.30/b.vsix'']"
    using Manifest_not_VSIXPackage by (simp add: ex_files ex_file_sel)
  show ?thesis
    using f first_package_entry_wins [OF ex_getExtensionVersion_cpptools]
    by (simp add: ex_file_sel)
qed

section \<open>Download\<close>

lemma downloadFile_Resolved:
  assumes "downloadFile E url dest w = (Resolved path, w')"
  shows "path = dest \<and> writable E dest
    \<and> (\<exists>content. cdn E url = Served content
          \<and> w' = w\<lparr>gets := gets w @ [url], disk := (disk w)(dest \<mapsto> content)\<rparr>)"
  using assms
  by (auto simp: downloadFile_def Let_def split: download.splits if_splits)

lemma getExtensionVersion_Some:
  assumes "getExtensionVersion E p e None w = (Resolved (Some v), w1)"
  shows "\<exists>info. getExtensionInfo E p e [Flag_1, Flag_2] w = (Resolved info, w1)
           \<and> js_index (versions info) 0 = Some v"
proof (cases "getExtensionInfo E p e [Flag_1, Flag_2] w")
  case (Pair r w')
  show ?thesis
  proof (cases r)
    case (Resolved info)
    with Pair assms show ?thesis by (simp add: getExtensionVersion_Resolved)
  next
    case (Rejected err)
    with Pair assms show ?thesis by (simp add: getExtensionVersion_Rejected)
  next
    case Pending
    with Pair assms show ?thesis by (simp add: getExtensionVersion_Pending)
  qed
qed

lemma downloadExtensionVsix_Resolved:
  assumes "downloadExtensionVsix E p e outputDir w = (Resolved path, w3)"
  shows "\<exists>v w1 url w2.
      getExtensionVersion E p e None w = (Resolved (Some v), w1)
    \<and> getVsixDownloadUrl E p e w1 = (Resolved url, w2)
    \<and> downloadFile E url
         (join E (default_outputDir outputDir) (p @ ''.'' @ e @ ''-'' @ version v @ ''.vsix'')) w2
       = (Resolved path, w3)"
  using assms
  by (auto simp: downloadExtensionVsix_def await_def throw_def Let_def
      split: prod.splits promise.splits option.splits)

lemma Client_downloadExtensionVsix_eq:
  "Client_downloadExtensionVsix E p e d = downloadExtensionVsix E p e d"
  by (cases d)
    (simp_all add: Client_downloadExtensionVsix_def downloadExtensionVsix_def
      cong: option.case_cong)

lemma ex_getExtensionVersion_cpptools_any:
  "getExtensionVersion ex_env ''ms-vscode'' ''cpptools'' None w =
     (Resolved (Some ex_v1),
      w\<lparr>posts := posts w @ [payload_of ''ms-vscode'' ''cpptools'' [Flag_1, Flag_2]]\<rparr>)"
  by (simp add: getExtensionVersion_def await_def return_def
      getExtensionInfo_Ok [OF ex_gallery_cpptools] ex_versions js_index_def)

lemma ex_getVsixDownloadUrl_cpptools_any:
  "getVsixDownloadUrl ex_env ''ms-vscode'' ''cpptools'' w =
     (Resolved ''https://cdn.example/1.2.30/a.vsix'',
      w\<lparr>posts := posts w @ [payload_of ''ms-vscode'' ''cpptools'' [Flag_1, Flag_2]]\<rparr>)"
  using Manifest_not_VSIXPackage
  by (simp add: getVsixDownloadUrl_Resolved [OF ex_getExtensionVersion_cpptools_any]
      ex_files ex_file_sel)

lemma ex_downloadFile:
  "downloadFile ex_env ''https://cdn.example/1.2.30/a.vsix'' dest w =
     (Resolved dest,
      w\<lparr>gets := gets w @ [''https://cdn.example/1.2.30/a.vsix''],
        disk := (disk w)(dest \<mapsto> ''PK-1.2.30'')\<rparr>)"
  by (simp add: downloadFile_def ex_env_def Let_def)

lemmas posix_join_defs =
  posix_join_def posix_normalize_def normalizeString_def normalize_step_def

text \<open>
  \<open>posix_join\<close> on the cases Node documents: an empty argument is skipped, \<^verbatim>\<open>.\<close> and
  doubled or trailing slashes of the directory disappear, \<^verbatim>\<open>..\<close> climbs.
\<close>

lemma posix_join_examples:
  "posix_join '''' ''a.vsix'' = ''a.vsix''"
  "posix_join '''' '''' = ''.''"
  "posix_join ''./out'' ''a.vsix'' = ''out/a.vsix''"
  "posix_join ''out/'' ''a.vsix'' = ''out/a.vsix''"
  "posix_join ''/tmp//x/../y'' ''a.vsix'' = ''/tmp/y/a.vsix''"
  "posix_join ''..'' ''../a.vsix'' = ''../../a.vsix''"
  "posix_join ''/'' ''../a.vsix'' = ''/a.vsix''"
  by (simp_all add: posix_join_defs)

lemma ex_join:
  "join ex_env ''.'' ''ms-vscode.cpptools-1.2.30.vsix'' = ''ms-vscode.cpptools-1.2.30.vsix''"
  "join ex_env ''out'' ''ms-vscode.cpptools-1.2.30.vsix'' =
     ''out/ms-vscode.cpptools-1.2.30.vsix''"
  "join ex_env ''./out/'' ''ms-vscode.cpptools-1.2.30.vsix'' =
     ''out/ms-vscode.cpptools-1.2.30.vsix''"
  by (simp_all add: ex_env_def posix_join_defs)

lemma ex_downloadExtensionVsix:
  "downloadExtensionVsix ex_env ''ms-vscode'' ''cpptools'' None w0 =
     (Resolved ''ms-vscode.cpptools-1.2.30.vsix'',
      ex_downloaded ''ms-vscode.cpptools-1.2.30.vsix'')"
  by (simp add: downloadExtensionVsix_def await_def ex_getExtensionVersion_cpptools_any
      ex_getVsixDownloadUrl_cpptools_any ex_downloadFile ex_join ex_version_names w0_def
      ex_downloaded_def)

lemma ex_downloadExtensionVsix_out:
  "downloadExtensionVsix ex_env ''ms-vscode'' ''cpptools'' (Some ''out'') w0 =
     (Resolved ''out/ms-vscode.cpptools-1.2.30.vsix'',
      ex_downloaded ''out/ms-vscode.cpptools-1.2.30.vsix'')"
  by (simp add: downloadExtensionVsix_def await_def ex_getExtensionVersion_cpptools_any
      ex_getVsixDownloadUrl_cpptools_any ex_downloadFile ex_join ex_version_names w0_def
      ex_downloaded_def)

text \<open>
  Claim C5. When \<^verbatim>\<open>downloadExtensionVsix\<close> resolves, the path it resolves with is
  \<^verbatim>\<open>join(outputDir, "<publisher>.<extension>-<version>.vsix")\<close> for the directory the caller
  gave, and \<^verbatim>\<open>join(".", ...)\<close> when \<^verbatim>\<open>outputDir\<close> is omitted, with the version string of
  \<^verbatim>\<open>versions[0]\<close> of the extension the first query resolved to; the URL that \<^verbatim>\<open>getVsixDownloadUrl\<close> resolved to served a byte stream to
  its end, and the file at the returned path holds exactly those bytes. The facade's
  operation settles the same way.
\<close>

theorem download_path_and_content:
  assumes "downloadExtensionVsix E p e outputDir w = (Resolved path, w3)"
  shows "\<exists>info v w1 url w2 content.
      getExtensionInfo E p e [Flag_1, Flag_2] w = (Resolved info, w1)
    \<and> js_index (versions info) 0 = Some v
    \<and> getVsixDownloadUrl E p e w1 = (Resolved url, w2)
    \<and> path = join E (case outputDir of None \<Rightarrow> ''.'' | Some dir \<Rightarrow> dir)
               (p @ ''.'' @ e @ ''-'' @ version v @ ''.vsix'')
    \<and> cdn E url = Served content
    \<and> disk w3 path = Some content
    \<and> Client_downloadExtensionVsix E p e outputDir w = (Resolved path, w3)"
proof -
  from downloadExtensionVsix_Resolved [OF assms] obtain v w1 url w2 where
    v: "getExtensionVersion E p e None w = (Resolved (Some v), w1)" and
    u: "getVsixDownloadUrl E p e w1 = (Resolved url, w2)" and
    d: "downloadFile E url
         (join E (default_outputDir outputDir) (p @ ''.'' @ e @ ''-'' @ version v @ ''.vsix'')) w2
       = (Resolved path, w3)"
    by blast
  from getExtensionVersion_Some [OF v] obtain info where
    i: "getExtensionInfo E p e [Flag_1, Flag_2] w = (Resolved info, w1)"
      "js_index (versions info) 0 = Some v"
    by blast
  from downloadFile_Resolved [OF d] obtain content where
    c: "path = join E (default_outputDir outputDir) (p @ ''.'' @ e @ ''-'' @ version v @ ''.vsix'')"
      "cdn E url = Served content"
      "w3 = w2\<lparr>gets := gets w2 @ [url], disk := (disk w2)(path \<mapsto> content)\<rparr>"
    by blast
  have k: "Client_downloadExtensionVsix E p e outputDir w = (Resolved path, w3)"
    using assms by (simp add: Client_downloadExtensionVsix_eq)
  have dir: "default_outputDir outputDir = (case outputDir of None \<Rightarrow> ''.'' | Some dir \<Rightarrow> dir)"
    by (cases outputDir) simp_all
  from c(3) have "disk w3 path = Some content" by simp
  with i u c(1,2) k dir show ?thesis by auto
qed


theorem download_path_and_content_witness:
  "(downloadExtensionVsix ex_env ''ms-vscode'' ''cpptools'' None w0 =
     (Resolved ''ms-vscode.cpptools-1.2.30.vsix'',
      ex_downloaded ''ms-vscode.cpptools-1.2.30.vsix'')
   \<and> (\<exists>info v w1 url w2 content.
        getExtensionInfo ex_env ''ms-vscode'' ''cpptools'' [Flag_1, Flag_2] w0 = (Resolved info, w1)
      \<and> js_index (versions info) 0 = Some v
      \<and> getVsixDownloadUrl ex_env ''ms-vscode'' ''cpptools'' w1 = (Resolved url, w2)
      \<and> ''ms-vscode.cpptools-1.2.30.vsix'' =
           join ex_env (case None of None \<Rightarrow> ''.'' | Some dir \<Rightarrow> dir)
             (''ms-vscode'' @ ''.'' @ ''cpptools'' @ ''-'' @ version v @ ''.vsix'')
      \<and> cdn ex_env url = Served content
      \<and> disk (ex_downloaded ''ms-vscode.cpptools-1.2.30.vsix'')
            ''ms-vscode.cpptools-1.2.30.vsix'' = Some content
      \<and> Client_downloadExtensionVsix ex_env ''ms-vscode'' ''cpptools'' None w0 =
         (Resolved ''ms-vscode.cpptools-1.2.30.vsix'',
          ex_downloaded ''ms-vscode.cpptools-1.2.30.vsix'')))
   \<and> (downloadExtensionVsix ex_env ''ms-vscode'' ''cpptools'' (Some ''out'') w0 =
     (Resolved ''out/ms-vscode.cpptools-1.2.30.vsix'',
      ex_downloaded ''out/ms-vscode.cpptools-1.2.30.vsix'')
   \<and> (\<exists>info v w1 url w2 content.
        getExtensionInfo ex_env ''ms-vscode'' ''cpptools'' [Flag_1, Flag_2] w0 = (Resolved info, w1)
      \<and> js_index (versions info) 0 = Some v
      \<and> getVsixDownloadUrl ex_env ''ms-vscode'' ''cpptools'' w1 = (Resolved url, w2)
      \<and> ''out/ms-vscode.cpptools-1.2.30.vsix'' =
           join ex_env (case Some ''out'' of None \<Rightarrow> ''.'' | Some dir \<Rightarrow> dir)
             (''ms-vscode'' @ ''.'' @ ''cpptools'' @ ''-'' @ version v @ ''.vsix'')
      \<and> cdn ex_env url = Served content
      \<and> disk (ex_downloaded ''out/ms-vscode.cpptools-1.2.30.vsix'')
            ''out/ms-vscode.cpptools-1.2.30.vsix'' = Some content
      \<and> Client_downloadExtensionVsix ex_env ''ms-vscode'' ''cpptools'' (Some ''out'') w0 =
         (Resolved ''out/ms-vscode.cpptools-1.2.30.vsix'',
          ex_downloaded ''out/ms-vscode.cpptools-1.2.30.vsix'')))
   \<and> disk (ex_downloaded ''out/ms-vscode.cpptools-1.2.30.vsix'')
            ''out/ms-vscode.cpptools-1.2.30.vsix'' = Some ''PK-1.2.30''
   \<and> disk (ex_downloaded ''out/ms-vscode.cpptools-1.2.30.vsix'')
            ''ms-vscode.cpptools-1.2.30.vsix'' = None"
proof -
  note a = conjI [OF ex_downloadExtensionVsix
        download_path_and_content [OF ex_downloadExtensionVsix]]
  note b = conjI [OF ex_downloadExtensionVsix_out
        download_path_and_content [OF ex_downloadExtensionVsix_out]]
  have c: "disk (ex_downloaded ''out/ms-vscode.cpptools-1.2.30.vsix'')
            ''out/ms-vscode.cpptools-1.2.30.vsix'' = Some ''PK-1.2.30''"
    by (simp add: ex_downloaded_def)
  have d: "disk (ex_downloaded ''out/ms-vscode.cpptools-1.2.30.vsix'')
            ''ms-vscode.cpptools-1.2.30.vsix'' = None"
    by (simp add: ex_downloaded_def)
  show ?thesis
    by (rule conjI [OF a conjI [OF b conjI [OF c d]]])
qed

section \<open>One version resolution instead of two\<close>

lemma deterministicD: "deterministic E \<Longrightarrow> gallery E n q = gallery E m q"
  by (simp add: deterministic_def)

lemma getExtensionInfo_fst_cong:
  assumes "gallery E (length (posts w1)) (payload_of p e fs) =
           gallery E (length (posts w)) (payload_of p e fs)"
  shows "fst (getExtensionInfo E p e fs w1) = fst (getExtensionInfo E p e fs w)"
  using assms
  by (simp add: getExtensionInfo_def fetchExtensionData_def await_def Let_def throw_def
      return_def split: http_response.split option.split)

lemma getExtensionVersion_fst_cong:
  assumes "fst (getExtensionInfo E p e [Flag_1, Flag_2] w1) =
           fst (getExtensionInfo E p e [Flag_1, Flag_2] w)"
  shows "fst (getExtensionVersion E p e ver w1) = fst (getExtensionVersion E p e ver w)"
  using assms
  by (cases "getExtensionInfo E p e [Flag_1, Flag_2] w1";
      cases "getExtensionInfo E p e [Flag_1, Flag_2] w")
     (auto simp: getExtensionVersion_def await_def return_def throw_def
       split: promise.split option.split)

lemma deterministic_getExtensionVersion:
  assumes "deterministic E"
  shows "fst (getExtensionVersion E p e ver w1) = fst (getExtensionVersion E p e ver w)"
  by (intro getExtensionVersion_fst_cong getExtensionInfo_fst_cong deterministicD [OF assms])

lemma getVsixDownloadUrl_eq:
  "getVsixDownloadUrl E p e w =
     ((case fst (getExtensionVersion E p e None w) of
         Resolved None \<Rightarrow> Rejected TypeError
       | Resolved (Some v) \<Rightarrow>
           (case find (\<lambda>file. assetType file = VSIXPackage) (files v) of
              None \<Rightarrow> Rejected (new_VsixFileNotFoundError ''VSIX file not found.'')
            | Some vsixAsset \<Rightarrow> Resolved (source vsixAsset))
       | Rejected err \<Rightarrow> Rejected err
       | Pending \<Rightarrow> Pending),
      snd (getExtensionVersion E p e None w))"
  by (cases "getExtensionVersion E p e None w")
     (simp add: getVsixDownloadUrl_def await_def return_def throw_def
       split: promise.split option.split)

lemma downloadFile_posts:
  assumes "gets w2 = gets w1" and "disk w2 = disk w1"
  shows "fst (downloadFile E url dest w2) = fst (downloadFile E url dest w1)
    \<and> gets (snd (downloadFile E url dest w2)) = gets (snd (downloadFile E url dest w1))
    \<and> disk (snd (downloadFile E url dest w2)) = disk (snd (downloadFile E url dest w1))"
  using assms by (simp add: downloadFile_def Let_def split: download.split)

text \<open>
  Claim C8. Against a gallery that responds deterministically, the second version
  resolution of \<^verbatim>\<open>downloadExtensionVsix\<close> (inside \<^verbatim>\<open>getVsixDownloadUrl\<close>) settles as the
  first one did, and the variant with a single resolution is observably equivalent: both
  settle with the same outcome (the same path, or the same error), request the same
  download URLs and leave the same files on local storage.
\<close>

theorem single_resolution_equivalent:
  assumes "deterministic E"
  shows "fst (getExtensionVersion E p e None (snd (getExtensionVersion E p e None w))) =
           fst (getExtensionVersion E p e None w)
    \<and> fst (downloadExtensionVsix E p e d w) = fst (downloadExtensionVsix_single E p e d w)
    \<and> gets (snd (downloadExtensionVsix E p e d w)) =
        gets (snd (downloadExtensionVsix_single E p e d w))
    \<and> disk (snd (downloadExtensionVsix E p e d w)) =
        disk (snd (downloadExtensionVsix_single E p e d w))"
proof -
  let ?q = "payload_of p e [Flag_1, Flag_2]"
  let ?w1 = "w\<lparr>posts := posts w @ [?q]\<rparr>"
  let ?w2 = "?w1\<lparr>posts := posts ?w1 @ [?q]\<rparr>"
  obtain r where r: "getExtensionVersion E p e None w = (r, ?w1)"
    using getExtensionVersion_world [of E p e None w]
    by (cases "getExtensionVersion E p e None w") simp
  have r1: "fst (getExtensionVersion E p e None ?w1) = r"
    using deterministic_getExtensionVersion [OF assms, of p e None ?w1 w] r by simp
  have s1: "snd (getExtensionVersion E p e None ?w1) = ?w2"
    by (rule getExtensionVersion_world)
  have again: "fst (getExtensionVersion E p e None (snd (getExtensionVersion E p e None w))) =
           fst (getExtensionVersion E p e None w)"
    using r r1 by simp
  have u: "getVsixDownloadUrl E p e ?w1 =
     ((case r of
         Resolved None \<Rightarrow> Rejected TypeError
       | Resolved (Some v) \<Rightarrow>
           (case find (\<lambda>file. assetType file = VSIXPackage) (files v) of
              None \<Rightarrow> Rejected (new_VsixFileNotFoundError ''VSIX file not found.'')
            | Some vsixAsset \<Rightarrow> Resolved (source vsixAsset))
       | Rejected err \<Rightarrow> Rejected err
       | Pending \<Rightarrow> Pending),
      ?w2)"
    unfolding getVsixDownloadUrl_eq [of E p e ?w1] r1 s1 ..
  have main: "fst (downloadExtensionVsix E p e d w) = fst (downloadExtensionVsix_single E p e d w)
    \<and> gets (snd (downloadExtensionVsix E p e d w)) =
        gets (snd (downloadExtensionVsix_single E p e d w))
    \<and> disk (snd (downloadExtensionVsix E p e d w)) =
        disk (snd (downloadExtensionVsix_single E p e d w))"
  proof (cases r)
    case (Rejected err)
    then show ?thesis
      by (simp add: downloadExtensionVsix_def downloadExtensionVsix_single_def await_def r)
  next
    case Pending
    then show ?thesis
      by (simp add: downloadExtensionVsix_def downloadExtensionVsix_single_def await_def r)
  next
    case (Resolved ev)
    show ?thesis
    proof (cases ev)
      case None
      then show ?thesis using Resolved
        by (simp add: downloadExtensionVsix_def downloadExtensionVsix_single_def await_def r u
            throw_def)
    next
      case (Some v)
      show ?thesis
      proof (cases "find (\<lambda>file. assetType file = VSIXPackage) (files v)")
        case None
        then show ?thesis using Resolved Some
          by (simp add: downloadExtensionVsix_def downloadExtensionVsix_single_def await_def r u
              throw_def)
      next
        case (Some a)
        have "gets ?w2 = gets ?w1" "disk ?w2 = disk ?w1" by simp_all
        from downloadFile_posts [OF this]
        show ?thesis using Resolved \<open>ev = Some v\<close> Some
          by (simp add: downloadExtensionVsix_def downloadExtensionVsix_single_def await_def r u
              Let_def)
      qed
    qed
  qed
  show ?thesis using again main by blast
qed

lemma ex_deterministic: "deterministic ex_env"
  by (simp add: deterministic_def ex_env_def ex_gallery_def)

theorem single_resolution_equivalent_witness:
  "deterministic ex_env
   \<and> fst (downloadExtensionVsix_single ex_env ''ms-vscode'' ''cpptools'' None w0) =
       Resolved ''ms-vscode.cpptools-1.2.30.vsix''
   \<and> gets (snd (downloadExtensionVsix_single ex_env ''ms-vscode'' ''cpptools'' None w0)) =
       [''https://cdn.example/1.2.30/a.vsix'']
   \<and> disk (snd (downloadExtensionVsix_single ex_env ''ms-vscode'' ''cpptools'' None w0)) =
       [''ms-vscode.cpptools-1.2.30.vsix'' \<mapsto> ''PK-1.2.30'']
   \<and> fst (downloadExtensionVsix_single ex_env ''ms-vscode'' ''cpptools'' (Some ''out'') w0) =
       Resolved ''out/ms-vscode.cpptools-1.2.30.vsix''
   \<and> disk (snd (downloadExtensionVsix_single ex_env ''ms-vscode'' ''cpptools'' (Some ''out'') w0)) =
       [''out/ms-vscode.cpptools-1.2.30.vsix'' \<mapsto> ''PK-1.2.30'']"
  using single_resolution_equivalent [OF ex_deterministic, of "''ms-vscode''" "''cpptools''" w0 None]
    single_resolution_equivalent
      [OF ex_deterministic, of "''ms-vscode''" "''cpptools''" w0 "Some ''out''"]
    ex_deterministic
  by (simp add: ex_downloadExtensionVsix ex_downloadExtensionVsix_out ex_downloaded_def)

end
